theory Spec2Isabelle
  imports Complex_Main
begin

section \<open>Python values\<close>

text \<open>
  A Python \<open>str\<close> is a sequence of Unicode code points; a code point is a natural number.
  String literals of the source are written as Isabelle literals and converted by \<open>lit\<close>.
\<close>

type_synonym codepoint = nat
type_synonym pystr = "codepoint list"

definition lit :: "string \<Rightarrow> pystr" where
  "lit s = map of_char s"

definition newline :: codepoint where
  "newline = 10"

subsection \<open>\<open>str.split\<close> and \<open>str.join\<close> with a one-character separator\<close>

text \<open>
  \<open>s.split(sep)\<close> cuts \<open>s\<close> at every occurrence of \<open>sep\<close> and keeps empty pieces;
  \<open>"".split(sep)\<close> is \<open>[""]\<close>.
\<close>

fun py_split :: "codepoint \<Rightarrow> pystr \<Rightarrow> pystr list" where
  "py_split sep [] = [[]]"
| "py_split sep (c # cs) =
     (if c = sep then [] # py_split sep cs
      else (case py_split sep cs of
              [] \<Rightarrow> [[c]]
            | seg # segs \<Rightarrow> (c # seg) # segs))"

text \<open>\<open>sep.join(xs)\<close>: the strings of \<open>xs\<close> with \<open>sep\<close> between neighbours.\<close>

fun py_join :: "codepoint \<Rightarrow> pystr list \<Rightarrow> pystr" where
  "py_join sep [] = []"
| "py_join sep [x] = x"
| "py_join sep (x # y # ys) = x @ sep # py_join sep (y # ys)"

section \<open>Word documents\<close>

text \<open>
  The \<open>docx\<close> library is used through three operations only: \<open>Document()\<close>,
  \<open>add_paragraph(text)\<close> and the \<open>paragraphs\<close> / \<open>text\<close> readers.  A document is
  modelled by the sequence of its paragraphs and a paragraph by the text it was given.
\<close>

record docx_paragraph =
  para_text :: pystr

record document =
  paragraphs :: "docx_paragraph list"

definition Document_new :: document where
  "Document_new = \<lparr>paragraphs = []\<rparr>"

definition add_paragraph :: "document \<Rightarrow> pystr \<Rightarrow> document" where
  "add_paragraph d t = d\<lparr>paragraphs := paragraphs d @ [\<lparr>para_text = t\<rparr>]\<rparr>"

text \<open>
  The loop of \<open>document_translator_page\<close>:
  \<^verbatim>\<open>for line in translation.split("\n"): translated_doc.add_paragraph(line)\<close>
\<close>

fun add_lines :: "document \<Rightarrow> pystr list \<Rightarrow> document" where
  "add_lines d [] = d"
| "add_lines d (line # lines) = add_lines (add_paragraph d line) lines"

definition build_document :: "pystr \<Rightarrow> document" where
  "build_document translation = add_lines Document_new (py_split newline translation)"


section \<open>JSON values and exceptions\<close>

text \<open>
  A decoded JSON value, as \<open>response.json()\<close> returns it and as the \<open>json=\<close> argument
  of \<open>requests.post\<close> takes it: \<open>None\<close>, \<open>bool\<close>, \<open>int\<close>, \<open>float\<close>, \<open>str\<close>,
  \<open>list\<close> and \<open>dict\<close> (string keys, in insertion order).  A float literal of the
  source is kept as the decimal it is written as; no float arithmetic occurs.
\<close>

datatype json =
    JNull
  | JBool bool
  | JInt int
  | JFloat rat
  | JStr pystr
  | JArr "json list"
  | JObj "(pystr \<times> json) list"

text \<open>
  The exceptions that can arise.  \<open>ConnectionError\<close>, \<open>Timeout\<close>, \<open>HTTPError\<close> and
  \<open>JSONDecodeError\<close> are the ones of \<open>requests\<close> (subclasses of
  \<open>requests.RequestException\<close>); \<open>HTTPError\<close> carries the status code of its response.
  \<open>Exception msg\<close> is the plain \<open>raise Exception(msg)\<close> of the source.
\<close>

datatype py_error =
    ConnectionError
  | Timeout
  | HTTPError nat
  | JSONDecodeError
  | KeyError json
  | IndexError
  | TypeError
  | AttributeError
  | UnicodeEncodeError
  | UnicodeDecodeError
  | PackageNotFoundError
  | Exception pystr

fun is_RequestException :: "py_error \<Rightarrow> bool" where
  "is_RequestException ConnectionError = True"
| "is_RequestException Timeout = True"
| "is_RequestException (HTTPError _) = True"
| "is_RequestException JSONDecodeError = True"
| "is_RequestException _ = False"

definition bind_result :: "py_error + 'a \<Rightarrow> ('a \<Rightarrow> py_error + 'b) \<Rightarrow> py_error + 'b" where
  "bind_result r f = (case r of Inl e \<Rightarrow> Inl e | Inr x \<Rightarrow> f x)"

text \<open>
  Subscripting \<open>x[i]\<close> with an integer index \<open>i \<ge> 0\<close>: a list gives its element or
  \<open>IndexError\<close>, a string its one-character substring or \<open>IndexError\<close>, a dict has no
  integer key (\<open>KeyError\<close>), anything else is not subscriptable (\<open>TypeError\<close>).
\<close>

fun getitem_index :: "json \<Rightarrow> nat \<Rightarrow> py_error + json" where
  "getitem_index (JArr xs) i = (if i < length xs then Inr (xs ! i) else Inl IndexError)"
| "getitem_index (JStr s) i = (if i < length s then Inr (JStr [s ! i]) else Inl IndexError)"
| "getitem_index (JObj kvs) i = Inl (KeyError (JInt (int i)))"
| "getitem_index _ i = Inl TypeError"

text \<open>
  Subscripting \<open>x[k]\<close> with a string key: a dict gives the value or \<open>KeyError\<close>; a list
  or a string wants integer indices and anything else is not subscriptable (\<open>TypeError\<close>).
\<close>

fun getitem_key :: "json \<Rightarrow> pystr \<Rightarrow> py_error + json" where
  "getitem_key (JObj kvs) k =
     (case map_of kvs k of Some v \<Rightarrow> Inr v | None \<Rightarrow> Inl (KeyError (JStr k)))"
| "getitem_key _ k = Inl TypeError"

text \<open>\<open>str(n)\<close> for a non-negative integer: its decimal digits.\<close>

function str_nat :: "nat \<Rightarrow> pystr" where
  "str_nat n = (if n < 10 then [48 + n] else str_nat (n div 10) @ [48 + n mod 10])"
  by pat_completeness auto
termination
  by (relation "measure id") auto

declare str_nat.simps [simp del]

section \<open>HTML trees\<close>

text \<open>
  What \<open>BeautifulSoup(html, "html.parser")\<close> builds: text nodes (\<open>NavigableString\<close>),
  comments, and tags with a name and children.  The soup itself is the list of its
  top-level nodes.
\<close>

datatype node =
    Text pystr
  | Comment pystr
  | Tag pystr "node list"

section \<open>The HTTP client and the outside world\<close>

datatype http_method = GET | POST

record request =
  req_method :: http_method
  req_url :: "pystr option"
  req_params :: "(pystr \<times> json) list"
  req_headers :: "(pystr \<times> pystr option) list"
  req_json :: "json option"

text \<open>
  A response is its status code and its body.  The body is held by the two views the
  source takes of it: \<open>body_json\<close> is what \<open>response.json()\<close> decodes (\<open>None\<close> when the
  body is not JSON and \<open>json()\<close> raises), \<open>body_html\<close> is the tree that
  \<open>BeautifulSoup(response.text, "html.parser")\<close> parses.
\<close>

record response =
  status_code :: nat
  body_json :: "json option"
  body_html :: "node list"

datatype artifact = MarkdownBytes "nat list" | DocxBuffer document

text \<open>What the page shows: the calls to \<open>streamlit\<close> in the order they are made.\<close>

datatype ui_event =
    Markdown json
  | TextArea pystr json
  | DownloadButton pystr artifact pystr pystr
  | StError pystr "py_error option"

text \<open>
  The world outside the program.  \<open>respond\<close> is the network: what a call of
  \<open>requests.get\<close> or \<open>requests.post\<close> returns or raises.  \<open>http_calls\<close> records the
  calls made, \<open>logged\<close> the calls of \<open>logger.error\<close> (message prefix and exception),
  \<open>ui\<close> the page.  \<open>uuid_source\<close> yields the successive values of
  \<open>str(uuid.uuid4())\<close> and \<open>clock\<close> is
  \<open>datetime.now().strftime('%Y%m%d_%H%M%S')\<close>.
\<close>

record world =
  respond :: "request \<Rightarrow> py_error + response"
  http_calls :: "request list"
  logged :: "(pystr \<times> py_error) list"
  ui :: "ui_event list"
  uuid_source :: "nat \<Rightarrow> pystr"
  uuid_count :: nat
  clock :: pystr

definition http_call :: "request \<Rightarrow> world \<Rightarrow> (py_error + response) \<times> world" where
  "http_call rq w = (respond w rq, w\<lparr>http_calls := http_calls w @ [rq]\<rparr>)"

definition requests_get :: "pystr \<Rightarrow> world \<Rightarrow> (py_error + response) \<times> world" where
  "requests_get u w =
     http_call \<lparr>req_method = GET, req_url = Some u, req_params = [], req_headers = [],
                req_json = None\<rparr> w"

definition requests_post ::
  "pystr option \<Rightarrow> (pystr \<times> json) list \<Rightarrow> (pystr \<times> pystr option) list \<Rightarrow> json \<Rightarrow> world
     \<Rightarrow> (py_error + response) \<times> world" where
  "requests_post u ps hs j w =
     http_call \<lparr>req_method = POST, req_url = u, req_params = ps, req_headers = hs,
                req_json = Some j\<rparr> w"

text \<open>
  \<open>Response.raise_for_status()\<close> raises \<open>HTTPError\<close> for a client error (4xx) or a
  server error (5xx) and returns for every other status.
\<close>

definition raise_for_status :: "response \<Rightarrow> py_error + unit" where
  "raise_for_status r =
     (if 400 \<le> status_code r \<and> status_code r < 600 then Inl (HTTPError (status_code r))
      else Inr ())"

definition response_json :: "response \<Rightarrow> py_error + json" where
  "response_json r = (case body_json r of None \<Rightarrow> Inl JSONDecodeError | Some j \<Rightarrow> Inr j)"

definition uuid4 :: "world \<Rightarrow> pystr \<times> world" where
  "uuid4 w = (uuid_source w (uuid_count w), w\<lparr>uuid_count := Suc (uuid_count w)\<rparr>)"

text \<open>
  \<^verbatim>\<open>except requests.RequestException as e: logger.error(f"<prefix>{e}"); raise\<close>
  around a block: a \<open>RequestException\<close> is logged, and every exception leaves unchanged.
\<close>

definition log_and_reraise ::
  "pystr \<Rightarrow> (py_error + 'a) \<times> world \<Rightarrow> (py_error + 'a) \<times> world" where
  "log_and_reraise prefix rw =
     (case rw of
        (Inl e, w) \<Rightarrow>
          (Inl e, if is_RequestException e then w\<lparr>logged := logged w @ [(prefix, e)]\<rparr> else w)
      | (Inr x, w) \<Rightarrow> (Inr x, w))"

section \<open>Text of a web page\<close>

text \<open>
  Whitespace as \<open>str.strip()\<close> and \<open>str.isspace()\<close> see it.
\<close>

definition py_isspace :: "codepoint \<Rightarrow> bool" where
  "py_isspace c \<longleftrightarrow>
     (9 \<le> c \<and> c \<le> 13) \<or> (28 \<le> c \<and> c \<le> 32) \<or> c = 133 \<or> c = 160 \<or> c = 5760
     \<or> (8192 \<le> c \<and> c \<le> 8202) \<or> c = 8232 \<or> c = 8233 \<or> c = 8239 \<or> c = 8287
     \<or> c = 12288"

definition py_strip :: "pystr \<Rightarrow> pystr" where
  "py_strip s = rev (dropWhile py_isspace (rev (dropWhile py_isspace s)))"

text \<open>
  \<^verbatim>\<open>for script in soup(names): script.decompose()\<close>: every tag whose name is in
  \<open>names\<close> is removed from the tree with all it contains.
\<close>

fun decompose_named :: "pystr list \<Rightarrow> node \<Rightarrow> node list" where
  "decompose_named names (Text s) = [Text s]"
| "decompose_named names (Comment s) = [Comment s]"
| "decompose_named names (Tag n cs) =
     (if n \<in> set names then [] else [Tag n (concat (map (decompose_named names) cs))])"

text \<open>
  The strings \<open>get_text\<close> collects: the text nodes of the tree in document order;
  comments are not text.
\<close>

fun all_strings :: "node \<Rightarrow> pystr list" where
  "all_strings (Text s) = [s]"
| "all_strings (Comment s) = []"
| "all_strings (Tag n cs) = concat (map all_strings cs)"

text \<open>
  \<open>soup.get_text(sep, strip=True)\<close>: every string stripped, the empty ones dropped,
  the rest joined with \<open>sep\<close>.
\<close>

definition get_text_strip :: "codepoint \<Rightarrow> node list \<Rightarrow> pystr" where
  "get_text_strip sep soup =
     py_join sep (filter (\<lambda>s. s \<noteq> []) (map py_strip (concat (map all_strings soup))))"

definition space :: codepoint where
  "space = 32"

text \<open>Lines 46 to 50 of \<open>ArticlesTranslator.extract_text\<close>, on the parsed page.\<close>

definition soup_text :: "node list \<Rightarrow> pystr" where
  "soup_text soup =
     get_text_strip space
       (concat (map (decompose_named [lit ''script'', lit ''style'']) soup))"

section \<open>The translators\<close>

record ArticlesTranslator =
  a_api_key :: "pystr option"
  a_endpoint :: "pystr option"

definition extract_text ::
  "ArticlesTranslator \<Rightarrow> pystr \<Rightarrow> world \<Rightarrow> (py_error + pystr) \<times> world" where
  "extract_text self u w =
     log_and_reraise (lit ''Failed to fetch URL: '')
       (case requests_get u w of
          (Inl e, w1) \<Rightarrow> (Inl e, w1)
        | (Inr resp, w1) \<Rightarrow>
            (case raise_for_status resp of
               Inl e \<Rightarrow> (Inl e, w1)
             | Inr _ \<Rightarrow> (Inr (soup_text (body_html resp)), w1)))"

definition a_headers :: "ArticlesTranslator \<Rightarrow> (pystr \<times> pystr option) list" where
  "a_headers self =
     [(lit ''Content-Type'', Some (lit ''application/json'')),
      (lit ''api-key'', a_api_key self)]"

definition payload :: "pystr \<Rightarrow> pystr \<Rightarrow> json" where
  "payload txt target_language =
     JObj [
       (lit ''messages'', JArr [
          JObj [(lit ''role'', JStr (lit ''system'')),
                (lit ''content'', JArr [
                   JObj [(lit ''type'', JStr (lit ''text'')),
                         (lit ''text'', JStr (lit ''You act as a text translator''))]])],
          JObj [(lit ''role'', JStr (lit ''user'')),
                (lit ''content'', JArr [
                   JObj [(lit ''type'', JStr (lit ''text'')),
                         (lit ''text'', JStr (lit ''translate: '' @ txt @ lit '' to ''
                            @ target_language
                            @ lit '' language and respond only with the translation in markdown format''))]])]]),
       (lit ''temperature'', JFloat 0.9),
       (lit ''top_p'', JFloat 0.95),
       (lit ''max_tokens'', JInt 900)]"

text \<open>\<open>response.json()["choices"][0]["message"]["content"]\<close>\<close>

definition first_choice_content :: "response \<Rightarrow> py_error + json" where
  "first_choice_content resp =
     bind_result (response_json resp) (\<lambda>j.
     bind_result (getitem_key j (lit ''choices'')) (\<lambda>cs.
     bind_result (getitem_index cs 0) (\<lambda>c.
     bind_result (getitem_key c (lit ''message'')) (\<lambda>m.
     getitem_key m (lit ''content'')))))"

definition a_translate_text ::
  "ArticlesTranslator \<Rightarrow> pystr \<Rightarrow> pystr \<Rightarrow> world \<Rightarrow> (py_error + json) \<times> world" where
  "a_translate_text self txt target_language w =
     log_and_reraise (lit ''API request failed: '')
       (case requests_post (a_endpoint self) [] (a_headers self) (payload txt target_language) w of
          (Inl e, w1) \<Rightarrow> (Inl e, w1)
        | (Inr resp, w1) \<Rightarrow>
            (case raise_for_status resp of
               Inl e \<Rightarrow> (Inl e, w1)
             | Inr _ \<Rightarrow> (first_choice_content resp, w1)))"

record DocumentsTranslator =
  d_api_key :: "pystr option"
  d_endpoint :: "pystr option"
  d_location :: "pystr option"

text \<open>\<open>self.endpoint + path\<close>: \<open>None + str\<close> is a \<open>TypeError\<close>.\<close>

definition constructed_url :: "DocumentsTranslator \<Rightarrow> py_error + pystr" where
  "constructed_url self =
     (case d_endpoint self of
        None \<Rightarrow> Inl TypeError
      | Some ep \<Rightarrow> Inr (ep @ lit ''/translate''))"

definition d_params :: "pystr \<Rightarrow> pystr \<Rightarrow> (pystr \<times> json) list" where
  "d_params source_language target_language =
     [(lit ''api-version'', JStr (lit ''3.0'')),
      (lit ''from'', JStr source_language),
      (lit ''to'', JArr [JStr target_language])]"

definition d_headers :: "DocumentsTranslator \<Rightarrow> pystr \<Rightarrow> (pystr \<times> pystr option) list" where
  "d_headers self trace_id =
     [(lit ''Ocp-Apim-Subscription-Key'', d_api_key self),
      (lit ''Ocp-Apim-Subscription-Region'', d_location self),
      (lit ''Content-type'', Some (lit ''application/json'')),
      (lit ''X-ClientTraceId'', Some trace_id)]"

text \<open>\<open>response.json()[0]["translations"][0]["text"]\<close>\<close>

definition first_translation_text :: "response \<Rightarrow> py_error + json" where
  "first_translation_text resp =
     bind_result (response_json resp) (\<lambda>j.
     bind_result (getitem_index j 0) (\<lambda>d.
     bind_result (getitem_key d (lit ''translations'')) (\<lambda>ts.
     bind_result (getitem_index ts 0) (\<lambda>t.
     getitem_key t (lit ''text'')))))"

definition d_translate_text ::
  "DocumentsTranslator \<Rightarrow> pystr \<Rightarrow> pystr \<Rightarrow> pystr \<Rightarrow> world \<Rightarrow> (py_error + json) \<times> world" where
  "d_translate_text self txt source_language target_language w =
     (case constructed_url self of
        Inl e \<Rightarrow> (Inl e, w)
      | Inr u \<Rightarrow>
          (case uuid4 w of (trace_id, w1) \<Rightarrow>
            (case requests_post (Some u) (d_params source_language target_language)
                    (d_headers self trace_id) (JArr [JObj [(lit ''text'', JStr txt)]]) w1 of
               (Inl e, w2) \<Rightarrow> (Inl e, w2)
             | (Inr resp, w2) \<Rightarrow>
                 (if status_code resp = 200 then (first_translation_text resp, w2)
                  else (Inl (Exception (lit ''Translation error: '' @ str_nat (status_code resp))),
                        w2)))))"

section \<open>UTF-8\<close>

text \<open>
  \<open>str.encode("utf-8")\<close>, one code point at a time.  A surrogate code point
  (U+D800 to U+DFFF) has no UTF-8 form and raises \<open>UnicodeEncodeError\<close>.  A Python
  string holds code points up to U+10FFFF only; a larger number is no code point and is
  refused as well.
\<close>

definition is_surrogate :: "codepoint \<Rightarrow> bool" where
  "is_surrogate c \<longleftrightarrow> 55296 \<le> c \<and> c \<le> 57343"

definition encode_codepoint :: "codepoint \<Rightarrow> py_error + nat list" where
  "encode_codepoint c =
     (if c < 128 then Inr [c]
      else if c < 2048 then Inr [192 + c div 64, 128 + c mod 64]
      else if c < 65536 then
        (if is_surrogate c then Inl UnicodeEncodeError
         else Inr [224 + c div 4096, 128 + c div 64 mod 64, 128 + c mod 64])
      else if c < 1114112 then
        Inr [240 + c div 262144, 128 + c div 4096 mod 64, 128 + c div 64 mod 64,
             128 + c mod 64]
      else Inl UnicodeEncodeError)"

fun utf8_encode :: "pystr \<Rightarrow> py_error + nat list" where
  "utf8_encode [] = Inr []"
| "utf8_encode (c # cs) =
     bind_result (encode_codepoint c) (\<lambda>bs.
     bind_result (utf8_encode cs) (\<lambda>rest. Inr (bs @ rest)))"

text \<open>
  \<open>bytes.decode("utf-8")\<close>: the strict decoder.  It refuses a stray or missing
  continuation byte, an overlong form, a surrogate, and a value above U+10FFFF.
\<close>

definition is_continuation :: "nat \<Rightarrow> bool" where
  "is_continuation b \<longleftrightarrow> 128 \<le> b \<and> b < 192"

definition decoded :: "codepoint \<Rightarrow> py_error + pystr \<Rightarrow> py_error + pystr" where
  "decoded c r = bind_result r (\<lambda>cs. Inr (c # cs))"

fun utf8_decode :: "nat list \<Rightarrow> py_error + pystr" where
  "utf8_decode [] = Inr []"
| "utf8_decode (b0 # bs) =
     (if b0 < 128 then decoded b0 (utf8_decode bs)
      else if 192 \<le> b0 \<and> b0 < 224 then
        (case bs of
           b1 # r \<Rightarrow>
             (let c = (b0 - 192) * 64 + (b1 - 128)
              in if is_continuation b1 \<and> 128 \<le> c then decoded c (utf8_decode r)
                 else Inl UnicodeDecodeError)
         | _ \<Rightarrow> Inl UnicodeDecodeError)
      else if 224 \<le> b0 \<and> b0 < 240 then
        (case bs of
           b1 # b2 # r \<Rightarrow>
             (let c = (b0 - 224) * 4096 + (b1 - 128) * 64 + (b2 - 128)
              in if is_continuation b1 \<and> is_continuation b2 \<and> 2048 \<le> c \<and> \<not> is_surrogate c
                 then decoded c (utf8_decode r)
                 else Inl UnicodeDecodeError)
         | _ \<Rightarrow> Inl UnicodeDecodeError)
      else if 240 \<le> b0 \<and> b0 < 248 then
        (case bs of
           b1 # b2 # b3 # r \<Rightarrow>
             (let c = (b0 - 240) * 262144 + (b1 - 128) * 4096 + (b2 - 128) * 64 + (b3 - 128)
              in if is_continuation b1 \<and> is_continuation b2 \<and> is_continuation b3
                    \<and> 65536 \<le> c \<and> c < 1114112
                 then decoded c (utf8_decode r)
                 else Inl UnicodeDecodeError)
         | _ \<Rightarrow> Inl UnicodeDecodeError)
      else Inl UnicodeDecodeError)"

section \<open>The pages\<close>

datatype language = Portuguese | English | Spanish | French | German | Italian

text \<open>The \<open>languages\<close> dictionary of the article page: the label sent to the model.\<close>

fun article_languages :: "language \<Rightarrow> pystr" where
  "article_languages Portuguese = lit ''portugu'' @ [234] @ lit ''s''"
| "article_languages English = lit ''english''"
| "article_languages Spanish = lit ''espa'' @ [241] @ lit ''ol''"
| "article_languages French = lit ''fran'' @ [231] @ lit ''ais''"
| "article_languages German = lit ''deutsch''"
| "article_languages Italian = lit ''italiano''"

text \<open>The \<open>languages\<close> dictionary of the document page: the language code.\<close>

fun document_languages :: "language \<Rightarrow> pystr" where
  "document_languages English = lit ''en''"
| "document_languages French = lit ''fr''"
| "document_languages Spanish = lit ''es''"
| "document_languages German = lit ''de''"
| "document_languages Portuguese = lit ''pt''"
| "document_languages Italian = lit ''it''"

definition st_show :: "ui_event \<Rightarrow> world \<Rightarrow> world" where
  "st_show ev w = w\<lparr>ui := ui w @ [ev]\<rparr>"

text \<open>
  \<^verbatim>\<open>except Exception as e: st.error(f"An error occurred: {str(e)}")\<close> around a
  block: an exception ends the block and is shown.
\<close>

definition except_show_error :: "(py_error + unit) \<times> world \<Rightarrow> world" where
  "except_show_error rw =
     (case rw of
        (Inl e, w) \<Rightarrow> st_show (StError (lit ''An error occurred: '') (Some e)) w
      | (Inr _, w) \<Rightarrow> w)"

text \<open>
  \<open>translation.encode("utf-8")\<close>: the translation is what the provider's JSON held at
  \<open>content\<close>; only a \<open>str\<close> has \<open>encode\<close>.
\<close>

definition markdown_bytes :: "json \<Rightarrow> py_error + nat list" where
  "markdown_bytes translation =
     (case translation of JStr s \<Rightarrow> utf8_encode s | _ \<Rightarrow> Inl AttributeError)"

text \<open>The body of the \<open>try\<close> of \<open>article_translator_page\<close>.\<close>

definition article_try ::
  "ArticlesTranslator \<Rightarrow> pystr \<Rightarrow> language \<Rightarrow> world \<Rightarrow> (py_error + unit) \<times> world" where
  "article_try translator u target_language w =
     (case extract_text translator u w of
        (Inl e, w1) \<Rightarrow> (Inl e, w1)
      | (Inr txt, w1) \<Rightarrow>
          (case a_translate_text translator txt (article_languages target_language) w1 of
             (Inl e, w2) \<Rightarrow> (Inl e, w2)
           | (Inr translation, w2) \<Rightarrow>
               (let w3 = st_show (Markdown (JStr (lit ''### Translation Result''))) w2;
                    w4 = st_show (Markdown translation) w3
                in case markdown_bytes translation of
                     Inl e \<Rightarrow> (Inl e, w4)
                   | Inr data \<Rightarrow>
                       (Inr (),
                        st_show (DownloadButton ([128229] @ lit '' Download Translation'')
                                   (MarkdownBytes data)
                                   (lit ''translation_'' @ clock w4 @ lit ''.md'')
                                   (lit ''text/markdown'')) w4))))"

text \<open>
  \<open>article_translator_page\<close> from the button on: \<open>clicked\<close> is what \<open>st.button\<close>
  returns.
\<close>

definition article_translator_page ::
  "ArticlesTranslator \<Rightarrow> pystr \<Rightarrow> language \<Rightarrow> bool \<Rightarrow> world \<Rightarrow> world" where
  "article_translator_page translator u target_language clicked w =
     (if clicked then except_show_error (article_try translator u target_language w) else w)"

text \<open>
  An uploaded file, by what \<open>Document(file)\<close> makes of it: the document it holds, or a
  file that is no Word document, on which \<open>Document\<close> raises.
\<close>

datatype uploaded_file = WordFile document | BadFile

fun Document_open :: "uploaded_file \<Rightarrow> py_error + document" where
  "Document_open (WordFile d) = Inr d"
| "Document_open BadFile = Inl PackageNotFoundError"

text \<open>\<open>[paragraph.text for paragraph in doc.paragraphs]\<close>\<close>

definition paragraph_texts :: "document \<Rightarrow> pystr list" where
  "paragraph_texts doc = map para_text (paragraphs doc)"

definition original_text :: "document \<Rightarrow> pystr" where
  "original_text doc = py_join newline (paragraph_texts doc)"

text \<open>
  Lines 286 to 288 on the translation as the provider returned it: only a \<open>str\<close> has
  \<open>split\<close>.
\<close>

definition translated_doc :: "json \<Rightarrow> py_error + document" where
  "translated_doc translation =
     (case translation of JStr s \<Rightarrow> Inr (build_document s) | _ \<Rightarrow> Inl AttributeError)"

definition docx_mime :: pystr where
  "docx_mime = lit ''application/vnd.openxmlformats-officedocument.wordprocessingml.document''"

text \<open>The body of the \<open>try\<close> of \<open>document_translator_page\<close>.\<close>

definition document_try ::
  "DocumentsTranslator \<Rightarrow> uploaded_file \<Rightarrow> language \<Rightarrow> language \<Rightarrow> world
     \<Rightarrow> (py_error + unit) \<times> world" where
  "document_try translator file source_language target_language w =
     (case Document_open file of
        Inl e \<Rightarrow> (Inl e, w)
      | Inr doc \<Rightarrow>
          (case d_translate_text translator (original_text doc)
                  (document_languages source_language) (document_languages target_language) w of
             (Inl e, w1) \<Rightarrow> (Inl e, w1)
           | (Inr translation, w1) \<Rightarrow>
               (let w2 = st_show (Markdown (JStr (lit ''### Original Text''))) w1;
                    w3 = st_show (TextArea (lit ''original text'') (JStr (original_text doc))) w2;
                    w4 = st_show (Markdown (JStr (lit ''### Translation Result''))) w3;
                    w5 = st_show (TextArea (lit ''translation'') translation) w4
                in case translated_doc translation of
                     Inl e \<Rightarrow> (Inl e, w5)
                   | Inr d \<Rightarrow>
                       (Inr (),
                        st_show (DownloadButton ([128229] @ lit '' Download Translated Document'')
                                   (DocxBuffer d)
                                   (lit ''translation_'' @ clock w5 @ lit ''.docx'')
                                   docx_mime) w5))))"

text \<open>
  \<open>document_translator_page\<close> from the button on: \<open>file\<close> is what
  \<open>st.file_uploader\<close> returns, \<open>None\<close> when nothing was uploaded.
\<close>

definition document_translator_page ::
  "DocumentsTranslator \<Rightarrow> uploaded_file option \<Rightarrow> language \<Rightarrow> language \<Rightarrow> bool \<Rightarrow> world
     \<Rightarrow> world" where
  "document_translator_page translator file source_language target_language clicked w =
     (if clicked then
        (case file of
           Some f \<Rightarrow> except_show_error (document_try translator f source_language target_language w)
         | None \<Rightarrow> st_show (StError (lit ''Please upload a Word file.'') None) w)
      else w)"

section \<open>Notions of the specification\<close>

text \<open>
  The response body the phrase provider is expected to send,
  \<open>[{"translations": [{"text": ...}]}]\<close>: the value found at \<open>translations[0].text\<close>
  of the first element of the array, and \<open>None\<close> when the body has not this shape.
\<close>

definition expected_translation :: "json option \<Rightarrow> json option" where
  "expected_translation body =
     (case body of
        Some (JArr (JObj d # ds)) \<Rightarrow>
          (case map_of d (lit ''translations'') of
             Some (JArr (JObj t # ts)) \<Rightarrow> map_of t (lit ''text'')
           | _ \<Rightarrow> None)
      | _ \<Rightarrow> None)"

text \<open>
  The response body the generative provider is expected to send,
  \<open>{"choices": [{"message": {"content": ...}}]}\<close>: the content of the first choice,
  and \<open>None\<close> when the body has not this shape.
\<close>

definition expected_content :: "json option \<Rightarrow> json option" where
  "expected_content body =
     (case body of
        Some (JObj kvs) \<Rightarrow>
          (case map_of kvs (lit ''choices'') of
             Some (JArr (JObj c # cs)) \<Rightarrow>
               (case map_of c (lit ''message'') of
                  Some (JObj m) \<Rightarrow> map_of m (lit ''content'')
                | _ \<Rightarrow> None)
           | _ \<Rightarrow> None)
      | _ \<Rightarrow> None)"

text \<open>
  The exceptions of decoding and subscripting a response body.  None of them is the
  \<open>Exception("Translation error: ...")\<close> of the source and none holds a status code.
\<close>

fun is_lookup_error :: "py_error \<Rightarrow> bool" where
  "is_lookup_error JSONDecodeError = True"
| "is_lookup_error (KeyError _) = True"
| "is_lookup_error IndexError = True"
| "is_lookup_error TypeError = True"
| "is_lookup_error _ = False"



text \<open>The artifacts a page has delivered: its download buttons.\<close>

fun is_download :: "ui_event \<Rightarrow> bool" where
  "is_download (DownloadButton _ _ _ _) = True"
| "is_download _ = False"

definition downloads :: "world \<Rightarrow> ui_event list" where
  "downloads w = filter is_download (ui w)"

text \<open>
  A world in which nothing has happened yet, around a given network: the starting point
  of the examples.
\<close>

definition fresh_world :: "(request \<Rightarrow> py_error + response) \<Rightarrow> world" where
  "fresh_world net =
     \<lparr>respond = net, http_calls = [], logged = [], ui = [],
      uuid_source = (\<lambda>n. lit ''trace-'' @ str_nat n), uuid_count = 0,
      clock = lit ''20240101_120000''\<rparr>"

section \<open>Splitting and joining\<close>





section \<open>The document builder\<close>






section \<open>The markdown artifact\<close>

lemma split64: "(n::nat) div 64 * 64 + n mod 64 = n"
  by (rule div_mult_mod_eq)

lemma recombine3:
  "(c::nat) div 4096 * 4096 + c div 64 mod 64 * 64 + c mod 64 = c"
proof -
  have a: "c div 4096 = c div 64 div 64"
    using div_mult2_eq [of c 64 64] by simp
  have "c div 4096 * 4096 + c div 64 mod 64 * 64 + c mod 64
        = (c div 64 div 64 * 64 + c div 64 mod 64) * 64 + c mod 64"
    unfolding a by (simp only: add_mult_distrib mult.assoc)
  also have "\<dots> = c div 64 * 64 + c mod 64" by (simp only: split64)
  also have "\<dots> = c" by (rule split64)
  finally show ?thesis .
qed

lemma recombine4:
  "(c::nat) div 262144 * 262144 + c div 4096 mod 64 * 4096 + c div 64 mod 64 * 64 + c mod 64 = c"
proof -
  have a: "c div 262144 = c div 64 div 64 div 64"
    using div_mult2_eq [of c 64 4096] div_mult2_eq [of "c div 64" 64 64] by simp
  have b: "c div 4096 = c div 64 div 64"
    using div_mult2_eq [of c 64 64] by simp
  have "c div 262144 * 262144 + c div 4096 mod 64 * 4096 + c div 64 mod 64 * 64 + c mod 64
        = ((c div 64 div 64 div 64 * 64 + c div 64 div 64 mod 64) * 64 + c div 64 mod 64) * 64
          + c mod 64"
    unfolding a b by (simp only: add_mult_distrib mult.assoc)
  also have "\<dots> = (c div 64 div 64 * 64 + c div 64 mod 64) * 64 + c mod 64"
    by (simp only: split64)
  also have "\<dots> = c div 64 * 64 + c mod 64" by (simp only: split64)
  also have "\<dots> = c" by (rule split64)
  finally show ?thesis .
qed

lemma decode_encoded_codepoint:
  "encode_codepoint c = Inr bs \<Longrightarrow> utf8_decode (bs @ rest) = decoded c (utf8_decode rest)"
  by (auto simp: encode_codepoint_def is_continuation_def is_surrogate_def Let_def
        recombine3 recombine4 split: if_splits)

lemma utf8_encode_Cons_Inr:
  "utf8_encode (c # cs) = Inr bs \<longleftrightarrow>
     (\<exists>b rest. encode_codepoint c = Inr b \<and> utf8_encode cs = Inr rest \<and> bs = b @ rest)"
proof (cases "encode_codepoint c")
  case (Inl e)
  then show ?thesis by (simp add: bind_result_def)
next
  case (Inr b)
  then show ?thesis by (cases "utf8_encode cs") (auto simp: bind_result_def)
qed

lemma utf8_decode_encode:
  "utf8_encode s = Inr bs \<Longrightarrow> utf8_decode bs = Inr s"
proof (induction s arbitrary: bs)
  case Nil
  then show ?case by simp
next
  case (Cons c cs)
  from Cons.prems obtain b rest where
    b: "encode_codepoint c = Inr b" and rest: "utf8_encode cs = Inr rest" and bs: "bs = b @ rest"
    unfolding utf8_encode_Cons_Inr by blast
  have "utf8_decode rest = Inr cs" using rest by (rule Cons.IH)
  then have "decoded c (utf8_decode rest) = Inr (c # cs)"
    by (simp add: decoded_def bind_result_def)
  then show ?case
    unfolding bs decode_encoded_codepoint [OF b] .
qed

lemma encode_codepoint_scalar:
  "c < 1114112 \<Longrightarrow> \<not> is_surrogate c \<Longrightarrow> \<exists>bs. encode_codepoint c = Inr bs"
  by (simp add: encode_codepoint_def)

lemma encode_codepoint_surrogate:
  "is_surrogate c \<Longrightarrow> encode_codepoint c = Inl UnicodeEncodeError"
  by (simp add: encode_codepoint_def is_surrogate_def)

lemma utf8_encode_scalars:
  "\<forall>c \<in> set s. c < 1114112 \<and> \<not> is_surrogate c \<Longrightarrow> \<exists>bs. utf8_encode s = Inr bs"
proof (induction s)
  case Nil
  show ?case by simp
next
  case (Cons c cs)
  then obtain rest where "utf8_encode cs = Inr rest" by auto
  moreover obtain b where "encode_codepoint c = Inr b"
    using encode_codepoint_scalar [of c] Cons.prems by auto
  ultimately show ?case unfolding utf8_encode_Cons_Inr by blast
qed

lemma encode_codepoint_error:
  "encode_codepoint c = Inl e \<Longrightarrow> e = UnicodeEncodeError"
  by (auto simp: encode_codepoint_def split: if_splits)

lemma utf8_encode_error:
  "utf8_encode s = Inl e \<Longrightarrow> e = UnicodeEncodeError"
proof (induction s)
  case Nil
  then show ?case by simp
next
  case (Cons c cs)
  show ?case
  proof (cases "encode_codepoint c")
    case (Inl e')
    then show ?thesis
      using Cons.prems encode_codepoint_error [of c e'] by (simp add: bind_result_def)
  next
    case b: (Inr b)
    show ?thesis
    proof (cases "utf8_encode cs")
      case (Inl e')
      then show ?thesis using b Cons by (simp add: bind_result_def)
    next
      case (Inr rest)
      then show ?thesis using b Cons.prems by (simp add: bind_result_def)
    qed
  qed
qed

lemma utf8_encode_surrogate:
  "\<exists>c \<in> set s. is_surrogate c \<Longrightarrow> utf8_encode s = Inl UnicodeEncodeError"
proof (induction s)
  case Nil
  then show ?case by simp
next
  case (Cons c cs)
  show ?case
  proof (cases "is_surrogate c")
    case True
    then show ?thesis by (simp add: encode_codepoint_surrogate bind_result_def)
  next
    case False
    with Cons have rest: "utf8_encode cs = Inl UnicodeEncodeError" by auto
    show ?thesis
    proof (cases "encode_codepoint c")
      case (Inl e)
      then show ?thesis using encode_codepoint_error [of c e] by (simp add: bind_result_def)
    next
      case (Inr b)
      then show ?thesis using rest by (simp add: bind_result_def)
    qed
  qed
qed

text \<open>
  Claim C9, amended.  A translated string is a Python string: each of its code points is
  at most U+10FFFF.  When it holds no surrogate code point, \<open>translation.encode("utf-8")\<close>
  returns bytes, and decoding them as UTF-8 gives the string back exactly.  When it holds
  a surrogate, the encoding raises \<open>UnicodeEncodeError\<close> and there are no bytes.
\<close>

theorem markdown_bytes_roundtrip:
  assumes "\<forall>c \<in> set s. c < 1114112"
  shows "if \<exists>c \<in> set s. is_surrogate c
         then markdown_bytes (JStr s) = Inl UnicodeEncodeError
         else bind_result (markdown_bytes (JStr s)) utf8_decode = Inr s"
proof (cases "\<exists>c \<in> set s. is_surrogate c")
  case True
  then show ?thesis by (simp add: markdown_bytes_def utf8_encode_surrogate)
next
  case False
  with assms have "\<forall>c \<in> set s. c < 1114112 \<and> \<not> is_surrogate c" by blast
  then obtain bs where bs: "utf8_encode s = Inr bs"
    using utf8_encode_scalars by blast
  then have "utf8_decode bs = Inr s" by (rule utf8_decode_encode)
  with bs False show ?thesis by (simp add: markdown_bytes_def bind_result_def)
qed

theorem markdown_bytes_roundtrip_witness:
  "bind_result (markdown_bytes (JStr [104, 233, 8364, 128229])) utf8_decode
     = Inr [104, 233, 8364, 128229]
   \<and> markdown_bytes (JStr [104, 55296]) = Inl UnicodeEncodeError"
  using markdown_bytes_roundtrip [of "[104, 233, 8364, 128229]"]
    markdown_bytes_roundtrip [of "[104, 55296]"]
  by (simp add: is_surrogate_def)

text \<open>
  Claim C9 as stated fails on a string with a lone surrogate, such as the one-character
  string U+D800 that the JSON text \<open>"\ud800"\<close> decodes to: encoding it raises, so
  encoding and decoding do not give the string back.
\<close>

theorem markdown_bytes_surrogate_counterexample:
  "markdown_bytes (JStr [55296]) = Inl UnicodeEncodeError
   \<and> bind_result (markdown_bytes (JStr [55296])) utf8_decode \<noteq> Inr [55296]"
  by (simp add: markdown_bytes_def bind_result_def encode_codepoint_def is_surrogate_def)

section \<open>The document extractor\<close>

text \<open>
  Claim C4.  A valid document with N paragraphs is opened as it is, and the list
  \<open>[paragraph.text for paragraph in doc.paragraphs]\<close> has exactly N strings, the i-th
  being the text of the i-th paragraph; nothing is filtered, an empty paragraph gives
  an empty string.
\<close>

theorem paragraph_texts_in_order:
  "Document_open (WordFile doc) = Inr doc
   \<and> length (paragraph_texts doc) = length (paragraphs doc)
   \<and> (\<forall>i < length (paragraphs doc). paragraph_texts doc ! i = para_text (paragraphs doc ! i))"
  by (simp add: paragraph_texts_def)

theorem paragraph_texts_in_order_witness:
  "length (paragraph_texts
      \<lparr>paragraphs = [\<lparr>para_text = lit ''a''\<rparr>, \<lparr>para_text = []\<rparr>, \<lparr>para_text = lit ''b''\<rparr>]\<rparr>) = 3
   \<and> paragraph_texts
      \<lparr>paragraphs = [\<lparr>para_text = lit ''a''\<rparr>, \<lparr>para_text = []\<rparr>, \<lparr>para_text = lit ''b''\<rparr>]\<rparr> ! 1
     = []"
  using paragraph_texts_in_order
    [of "\<lparr>paragraphs = [\<lparr>para_text = lit ''a''\<rparr>, \<lparr>para_text = []\<rparr>, \<lparr>para_text = lit ''b''\<rparr>]\<rparr>"]
  by simp

section \<open>Response bodies\<close>

lemma first_translation_text_expected:
  "expected_translation (body_json resp) = Some v \<Longrightarrow> first_translation_text resp = Inr v"
  by (auto simp: first_translation_text_def expected_translation_def response_json_def
        bind_result_def split: option.splits json.splits list.splits)

lemma first_translation_text_unexpected:
  "expected_translation (body_json resp) = None \<Longrightarrow>
   \<exists>e. first_translation_text resp = Inl e \<and> is_lookup_error e"
  by (auto simp: first_translation_text_def expected_translation_def response_json_def
        bind_result_def split: option.splits json.splits list.splits)

lemma first_choice_content_expected:
  "expected_content (body_json resp) = Some v \<Longrightarrow> first_choice_content resp = Inr v"
  by (auto simp: first_choice_content_def expected_content_def response_json_def
        bind_result_def split: option.splits json.splits list.splits)

lemma first_choice_content_unexpected:
  "expected_content (body_json resp) = None \<Longrightarrow>
   \<exists>e. first_choice_content resp = Inl e \<and> is_lookup_error e"
  by (auto simp: first_choice_content_def expected_content_def response_json_def
        bind_result_def split: option.splits json.splits list.splits)

lemma str_nat_404: "str_nat 404 = lit ''404''"
  by (simp add: str_nat.simps lit_def)

section \<open>The phrase-translation client\<close>

lemma d_translate_text_answered:
  assumes "d_endpoint self = Some ep"
    and "fst (requests_post (Some (ep @ lit ''/translate''))
                (d_params source_language target_language)
                (d_headers self (uuid_source w (uuid_count w)))
                (JArr [JObj [(lit ''text'', JStr txt)]]) w) = Inr resp"
  shows "fst (d_translate_text self txt source_language target_language w) =
           (if status_code resp = 200 then first_translation_text resp
            else Inl (Exception (lit ''Translation error: '' @ str_nat (status_code resp))))"
  using assms
  by (simp add: d_translate_text_def constructed_url_def uuid4_def requests_post_def
        http_call_def)

text \<open>
  Claim C1, amended.  Let the POST of \<open>DocumentsTranslator.translate_text\<close> be answered
  with a response.  When its status is not 200 the call raises
  \<open>Exception("Translation error: <status>")\<close>.  When its status is 200 and the body has
  the shape \<open>[{"translations": [{"text": v}]}]\<close> the call returns \<open>v\<close>.  When its status
  is 200 and the body has not this shape the call raises the error of the failed lookup
  (\<open>JSONDecodeError\<close>, \<open>IndexError\<close>, \<open>KeyError\<close> or \<open>TypeError\<close>), which is not the
  \<open>Exception\<close> of the other branch.
\<close>

theorem d_translate_text_outcome:
  assumes "d_endpoint self = Some ep"
    and "fst (requests_post (Some (ep @ lit ''/translate''))
                (d_params source_language target_language)
                (d_headers self (uuid_source w (uuid_count w)))
                (JArr [JObj [(lit ''text'', JStr txt)]]) w) = Inr resp"
  shows "(status_code resp \<noteq> 200 \<longrightarrow>
            fst (d_translate_text self txt source_language target_language w)
              = Inl (Exception (lit ''Translation error: '' @ str_nat (status_code resp))))
       \<and> (status_code resp = 200 \<longrightarrow>
            (case expected_translation (body_json resp) of
               Some v \<Rightarrow> fst (d_translate_text self txt source_language target_language w) = Inr v
             | None \<Rightarrow>
                 \<exists>e. fst (d_translate_text self txt source_language target_language w) = Inl e
                     \<and> is_lookup_error e \<and> (\<forall>msg. e \<noteq> Exception msg)))"
proof -
  note r = d_translate_text_answered [OF assms]
  have a: "status_code resp \<noteq> 200 \<longrightarrow>
            fst (d_translate_text self txt source_language target_language w)
              = Inl (Exception (lit ''Translation error: '' @ str_nat (status_code resp)))"
    by (simp add: r)
  have b: "case expected_translation (body_json resp) of
             Some v \<Rightarrow> fst (d_translate_text self txt source_language target_language w) = Inr v
           | None \<Rightarrow>
               \<exists>e. fst (d_translate_text self txt source_language target_language w) = Inl e
                   \<and> is_lookup_error e \<and> (\<forall>msg. e \<noteq> Exception msg)"
    if ok: "status_code resp = 200"
  proof (cases "expected_translation (body_json resp)")
    case None
    from first_translation_text_unexpected [OF None] obtain e
      where e: "first_translation_text resp = Inl e" "is_lookup_error e" by blast
    from e(2) have "\<forall>msg. e \<noteq> Exception msg" by (cases e) simp_all
    with e None ok show ?thesis by (simp add: r)
  next
    case (Some v)
    from first_translation_text_expected [OF Some] Some ok show ?thesis by (simp add: r)
  qed
  from a b show ?thesis by blast
qed

theorem d_translate_text_outcome_witness:
  "fst (d_translate_text \<lparr>d_api_key = None, d_endpoint = Some (lit ''https://t''), d_location = None\<rparr>
          (lit ''Hello'') (lit ''en'') (lit ''fr'')
          (fresh_world (\<lambda>rq. Inr \<lparr>status_code = 404, body_json = None, body_html = []\<rparr>)))
     = Inl (Exception (lit ''Translation error: 404''))
   \<and> fst (d_translate_text \<lparr>d_api_key = None, d_endpoint = Some (lit ''https://t''), d_location = None\<rparr>
          (lit ''Hello'') (lit ''en'') (lit ''fr'')
          (fresh_world (\<lambda>rq. Inr \<lparr>status_code = 200,
             body_json = Some (JArr [JObj [(lit ''translations'',
                            JArr [JObj [(lit ''text'', JStr (lit ''Bonjour''))]])]]),
             body_html = []\<rparr>)))
     = Inr (JStr (lit ''Bonjour''))"
  using d_translate_text_outcome
    [of "\<lparr>d_api_key = None, d_endpoint = Some (lit ''https://t''), d_location = None\<rparr>"
        "lit ''https://t''" "lit ''en''" "lit ''fr''"
        "fresh_world (\<lambda>rq. Inr \<lparr>status_code = 404, body_json = None, body_html = []\<rparr>)"
        "lit ''Hello''" "\<lparr>status_code = 404, body_json = None, body_html = []\<rparr>"]
    d_translate_text_outcome
    [of "\<lparr>d_api_key = None, d_endpoint = Some (lit ''https://t''), d_location = None\<rparr>"
        "lit ''https://t''" "lit ''en''" "lit ''fr''"
        "fresh_world (\<lambda>rq. Inr \<lparr>status_code = 200,
             body_json = Some (JArr [JObj [(lit ''translations'',
                            JArr [JObj [(lit ''text'', JStr (lit ''Bonjour''))]])]]),
             body_html = []\<rparr>)"
        "lit ''Hello''"
        "\<lparr>status_code = 200,
             body_json = Some (JArr [JObj [(lit ''translations'',
                            JArr [JObj [(lit ''text'', JStr (lit ''Bonjour''))]])]]),
             body_html = []\<rparr>"]
  by (simp add: requests_post_def http_call_def fresh_world_def expected_translation_def
        str_nat_404 lit_def)

text \<open>
  Claim C1 as stated fails on a response with status 200 whose body is the empty array
  \<open>[]\<close>: \<open>response.json()[0]\<close> raises \<open>IndexError\<close>, and nothing turns it into the
  \<open>Exception("Translation error: ...")\<close> that the source raises for a bad status.
\<close>

theorem d_translate_text_empty_array_counterexample:
  "fst (d_translate_text \<lparr>d_api_key = None, d_endpoint = Some (lit ''https://t''), d_location = None\<rparr>
          (lit ''Hello'') (lit ''en'') (lit ''fr'')
          (fresh_world (\<lambda>rq. Inr \<lparr>status_code = 200, body_json = Some (JArr []),
                                   body_html = []\<rparr>)))
     = Inl IndexError
   \<and> (\<forall>msg. IndexError \<noteq> Exception msg)"
  by (simp add: d_translate_text_def constructed_url_def uuid4_def requests_post_def
        http_call_def fresh_world_def first_translation_text_def response_json_def
        bind_result_def)

section \<open>The generative client\<close>

lemma a_translate_text_answered:
  assumes "fst (requests_post (a_endpoint self) [] (a_headers self)
                  (payload txt target_language) w) = Inr resp"
  shows "a_translate_text self txt target_language w =
           (if 400 \<le> status_code resp \<and> status_code resp < 600
            then (Inl (HTTPError (status_code resp)),
                  (snd (requests_post (a_endpoint self) [] (a_headers self)
                          (payload txt target_language) w))
                    \<lparr>logged := logged w
                        @ [(lit ''API request failed: '', HTTPError (status_code resp))]\<rparr>)
            else log_and_reraise (lit ''API request failed: '')
                   (first_choice_content resp,
                    snd (requests_post (a_endpoint self) [] (a_headers self)
                           (payload txt target_language) w)))"
  using assms
  by (simp add: a_translate_text_def requests_post_def http_call_def raise_for_status_def
        log_and_reraise_def)

lemma fst_log_and_reraise: "fst (log_and_reraise prefix rw) = fst rw"
  by (simp add: log_and_reraise_def split: prod.splits sum.splits)

text \<open>
  Claim C2, amended.  Let the POST of \<open>ArticlesTranslator.translate_text\<close> be answered
  with a response.  When its status is a client or server error (400 to 599) the call
  raises \<open>HTTPError\<close>, which holds that status, and the error is logged.  For every
  other status, 2xx or not: when the body has the shape
  \<open>{"choices": [{"message": {"content": v}}]}\<close> the call returns \<open>v\<close>, and when it has
  not, the call raises the error of the failed lookup (\<open>JSONDecodeError\<close>, \<open>KeyError\<close>,
  \<open>IndexError\<close> or \<open>TypeError\<close>), which holds no status.
\<close>

theorem a_translate_text_outcome:
  assumes "fst (requests_post (a_endpoint self) [] (a_headers self)
                  (payload txt target_language) w) = Inr resp"
  shows "(400 \<le> status_code resp \<and> status_code resp < 600 \<longrightarrow>
            fst (a_translate_text self txt target_language w)
              = Inl (HTTPError (status_code resp))
            \<and> logged (snd (a_translate_text self txt target_language w))
              = logged w @ [(lit ''API request failed: '', HTTPError (status_code resp))])
       \<and> (\<not> (400 \<le> status_code resp \<and> status_code resp < 600) \<longrightarrow>
            (case expected_content (body_json resp) of
               Some v \<Rightarrow> fst (a_translate_text self txt target_language w) = Inr v
             | None \<Rightarrow>
                 \<exists>e. fst (a_translate_text self txt target_language w) = Inl e
                     \<and> is_lookup_error e \<and> (\<forall>n. e \<noteq> HTTPError n)))"
proof -
  note r = a_translate_text_answered [OF assms]
  have a: "400 \<le> status_code resp \<and> status_code resp < 600 \<longrightarrow>
            fst (a_translate_text self txt target_language w)
              = Inl (HTTPError (status_code resp))
            \<and> logged (snd (a_translate_text self txt target_language w))
              = logged w @ [(lit ''API request failed: '', HTTPError (status_code resp))]"
    by (simp add: r)
  have b: "case expected_content (body_json resp) of
             Some v \<Rightarrow> fst (a_translate_text self txt target_language w) = Inr v
           | None \<Rightarrow>
               \<exists>e. fst (a_translate_text self txt target_language w) = Inl e
                   \<and> is_lookup_error e \<and> (\<forall>n. e \<noteq> HTTPError n)"
    if other: "\<not> (400 \<le> status_code resp \<and> status_code resp < 600)"
  proof -
    have f: "fst (a_translate_text self txt target_language w) = first_choice_content resp"
      using other by (simp only: r if_False fst_log_and_reraise fst_conv)
    show ?thesis
    proof (cases "expected_content (body_json resp)")
      case None
      from first_choice_content_unexpected [OF None] obtain e
        where e: "first_choice_content resp = Inl e" "is_lookup_error e" by blast
      from e(2) have "\<forall>n. e \<noteq> HTTPError n" by (cases e) simp_all
      with e None show ?thesis by (simp add: f)
    next
      case (Some v)
      from first_choice_content_expected [OF Some] Some show ?thesis by (simp add: f)
    qed
  qed
  from a b show ?thesis by blast
qed

theorem a_translate_text_outcome_witness:
  "fst (a_translate_text \<lparr>a_api_key = None, a_endpoint = Some (lit ''https://g'')\<rparr>
          (lit ''Hello'') (lit ''italiano'')
          (fresh_world (\<lambda>rq. Inr \<lparr>status_code = 429, body_json = None, body_html = []\<rparr>)))
     = Inl (HTTPError 429)
   \<and> fst (a_translate_text \<lparr>a_api_key = None, a_endpoint = Some (lit ''https://g'')\<rparr>
          (lit ''Hello'') (lit ''italiano'')
          (fresh_world (\<lambda>rq. Inr \<lparr>status_code = 200,
             body_json = Some (JObj [(lit ''choices'',
                            JArr [JObj [(lit ''message'',
                               JObj [(lit ''content'', JStr (lit ''Ciao''))])]])]),
             body_html = []\<rparr>)))
     = Inr (JStr (lit ''Ciao''))"
  using a_translate_text_outcome
    [of "\<lparr>a_api_key = None, a_endpoint = Some (lit ''https://g'')\<rparr>"
        "lit ''Hello''" "lit ''italiano''"
        "fresh_world (\<lambda>rq. Inr \<lparr>status_code = 429, body_json = None, body_html = []\<rparr>)"
        "\<lparr>status_code = 429, body_json = None, body_html = []\<rparr>"]
    a_translate_text_outcome
    [of "\<lparr>a_api_key = None, a_endpoint = Some (lit ''https://g'')\<rparr>"
        "lit ''Hello''" "lit ''italiano''"
        "fresh_world (\<lambda>rq. Inr \<lparr>status_code = 200,
             body_json = Some (JObj [(lit ''choices'',
                            JArr [JObj [(lit ''message'',
                               JObj [(lit ''content'', JStr (lit ''Ciao''))])]])]),
             body_html = []\<rparr>)"
        "\<lparr>status_code = 200,
             body_json = Some (JObj [(lit ''choices'',
                            JArr [JObj [(lit ''message'',
                               JObj [(lit ''content'', JStr (lit ''Ciao''))])]])]),
             body_html = []\<rparr>"]
  by (simp add: requests_post_def http_call_def fresh_world_def expected_content_def)

text \<open>
  Claim C2 as stated fails in two ways.  A response with status 200 whose body is \<open>{}\<close>
  makes \<open>response.json()["choices"]\<close> raise \<open>KeyError\<close>: the error holds the missing
  key and no status, it is no \<open>RequestException\<close>, and nothing is logged.  A response
  with status 304, which is not 2xx, raises nothing in \<open>raise_for_status\<close>: with a body
  of the expected shape the call returns its content.
\<close>

theorem a_translate_text_malformed_counterexample:
  "fst (a_translate_text \<lparr>a_api_key = None, a_endpoint = Some (lit ''https://g'')\<rparr>
          (lit ''Hello'') (lit ''italiano'')
          (fresh_world (\<lambda>rq. Inr \<lparr>status_code = 200, body_json = Some (JObj []),
                                   body_html = []\<rparr>)))
     = Inl (KeyError (JStr (lit ''choices'')))
   \<and> logged (snd (a_translate_text \<lparr>a_api_key = None, a_endpoint = Some (lit ''https://g'')\<rparr>
          (lit ''Hello'') (lit ''italiano'')
          (fresh_world (\<lambda>rq. Inr \<lparr>status_code = 200, body_json = Some (JObj []),
                                   body_html = []\<rparr>)))) = []
   \<and> fst (a_translate_text \<lparr>a_api_key = None, a_endpoint = Some (lit ''https://g'')\<rparr>
          (lit ''Hello'') (lit ''italiano'')
          (fresh_world (\<lambda>rq. Inr \<lparr>status_code = 304,
             body_json = Some (JObj [(lit ''choices'',
                            JArr [JObj [(lit ''message'',
                               JObj [(lit ''content'', JStr (lit ''Ciao''))])]])]),
             body_html = []\<rparr>)))
     = Inr (JStr (lit ''Ciao''))"
  by (simp add: a_translate_text_def requests_post_def http_call_def fresh_world_def
        raise_for_status_def log_and_reraise_def first_choice_content_def response_json_def
        bind_result_def)

lemma payload_messages:
  "getitem_key (payload txt target_language) (lit ''messages'') =
     Inr (JArr [
       JObj [(lit ''role'', JStr (lit ''system'')),
             (lit ''content'', JArr [
                JObj [(lit ''type'', JStr (lit ''text'')),
                      (lit ''text'', JStr (lit ''You act as a text translator''))]])],
       JObj [(lit ''role'', JStr (lit ''user'')),
             (lit ''content'', JArr [
                JObj [(lit ''type'', JStr (lit ''text'')),
                      (lit ''text'', JStr (lit ''translate: '' @ txt @ lit '' to ''
                         @ target_language
                         @ lit '' language and respond only with the translation in markdown format''))]])]])"
  by (simp add: payload_def)

lemma payload_parameters:
  "getitem_key (payload txt target_language) (lit ''temperature'') = Inr (JFloat (9 / 10))
   \<and> getitem_key (payload txt target_language) (lit ''top_p'') = Inr (JFloat (95 / 100))
   \<and> getitem_key (payload txt target_language) (lit ''max_tokens'') = Inr (JInt 900)"
  by (simp add: payload_def lit_def)

lemma payload_keys:
  "(\<exists>kvs. payload txt target_language = JObj kvs
      \<and> map fst kvs = [lit ''messages'', lit ''temperature'', lit ''top_p'', lit ''max_tokens''])"
  by (simp add: payload_def)

lemma a_translate_text_calls:
  "http_calls (snd (a_translate_text self txt target_language w)) =
     http_calls w @ [\<lparr>req_method = POST, req_url = a_endpoint self, req_params = [],
                      req_headers = a_headers self,
                      req_json = Some (payload txt target_language)\<rparr>]"
  by (simp add: a_translate_text_def requests_post_def http_call_def log_and_reraise_def
        split: sum.splits prod.splits)

text \<open>
  Claim C8.  Whatever the text, the label, the translator and the answer of the network,
  \<open>ArticlesTranslator.translate_text\<close> makes exactly one HTTP call: a POST whose JSON
  body is \<open>payload\<close>.  That body has the four keys \<open>messages\<close>, \<open>temperature\<close>,
  \<open>top_p\<close> and \<open>max_tokens\<close>; its messages are the fixed system instruction and the
  user instruction built from the text and the label; its numeric parameters are 0.9,
  0.95 and 900.  The body is a function of the text and the label alone, so no caller
  can change the parameters.
\<close>

theorem a_translate_text_request:
  "http_calls (snd (a_translate_text self txt target_language w)) =
     http_calls w @ [\<lparr>req_method = POST, req_url = a_endpoint self, req_params = [],
                      req_headers = a_headers self,
                      req_json = Some (payload txt target_language)\<rparr>]
   \<and> (\<exists>kvs. payload txt target_language = JObj kvs
        \<and> map fst kvs = [lit ''messages'', lit ''temperature'', lit ''top_p'', lit ''max_tokens''])
   \<and> getitem_key (payload txt target_language) (lit ''messages'') =
       Inr (JArr [
         JObj [(lit ''role'', JStr (lit ''system'')),
               (lit ''content'', JArr [
                  JObj [(lit ''type'', JStr (lit ''text'')),
                        (lit ''text'', JStr (lit ''You act as a text translator''))]])],
         JObj [(lit ''role'', JStr (lit ''user'')),
               (lit ''content'', JArr [
                  JObj [(lit ''type'', JStr (lit ''text'')),
                        (lit ''text'', JStr (lit ''translate: '' @ txt @ lit '' to ''
                           @ target_language
                           @ lit '' language and respond only with the translation in markdown format''))]])]])
   \<and> getitem_key (payload txt target_language) (lit ''temperature'') = Inr (JFloat (9 / 10))
   \<and> getitem_key (payload txt target_language) (lit ''top_p'') = Inr (JFloat (95 / 100))
   \<and> getitem_key (payload txt target_language) (lit ''max_tokens'') = Inr (JInt 900)"
  using a_translate_text_calls [of self "txt" target_language w]
    payload_keys [of "txt" target_language] payload_messages [of "txt" target_language]
    payload_parameters [of "txt" target_language]
  by blast

section \<open>Fetching a web page\<close>




section \<open>The text of a page\<close>














section \<open>The pages\<close>

lemma ui_extract_text: "ui (snd (extract_text self u w)) = ui w"
  by (simp add: extract_text_def requests_get_def http_call_def log_and_reraise_def
        split: sum.splits)

lemma ui_a_translate_text: "ui (snd (a_translate_text self t l w)) = ui w"
  by (simp add: a_translate_text_def requests_post_def http_call_def log_and_reraise_def
        split: sum.splits)

lemma ui_d_translate_text: "ui (snd (d_translate_text self t s l w)) = ui w"
  by (simp add: d_translate_text_def requests_post_def http_call_def uuid4_def
        split: sum.splits)

lemma article_try_stages:
  "article_try translator u target_language w =
     (case fst (extract_text translator u w) of
        Inl e \<Rightarrow> (Inl e, snd (extract_text translator u w))
      | Inr t \<Rightarrow>
          (case fst (a_translate_text translator t (article_languages target_language)
                       (snd (extract_text translator u w))) of
             Inl e \<Rightarrow>
               (Inl e, snd (a_translate_text translator t (article_languages target_language)
                              (snd (extract_text translator u w))))
           | Inr translation \<Rightarrow>
               (case markdown_bytes translation of
                  Inl e \<Rightarrow>
                    (Inl e,
                     st_show (Markdown translation)
                       (st_show (Markdown (JStr (lit ''### Translation Result'')))
                          (snd (a_translate_text translator t
                                  (article_languages target_language)
                                  (snd (extract_text translator u w))))))
                | Inr data \<Rightarrow>
                    (Inr (),
                     st_show (DownloadButton ([128229] @ lit '' Download Translation'')
                                (MarkdownBytes data)
                                (lit ''translation_''
                                   @ clock (snd (a_translate_text translator t
                                       (article_languages target_language)
                                       (snd (extract_text translator u w))))
                                   @ lit ''.md'')
                                (lit ''text/markdown''))
                       (st_show (Markdown translation)
                          (st_show (Markdown (JStr (lit ''### Translation Result'')))
                             (snd (a_translate_text translator t
                                     (article_languages target_language)
                                     (snd (extract_text translator u w))))))))))"
  by (simp add: article_try_def Let_def st_show_def split: prod.splits sum.splits)

lemma document_try_stages:
  "document_try translator file source_language target_language w =
     (case Document_open file of
        Inl e \<Rightarrow> (Inl e, w)
      | Inr doc \<Rightarrow>
          (case fst (d_translate_text translator (original_text doc)
                       (document_languages source_language)
                       (document_languages target_language) w) of
             Inl e \<Rightarrow>
               (Inl e, snd (d_translate_text translator (original_text doc)
                              (document_languages source_language)
                              (document_languages target_language) w))
           | Inr translation \<Rightarrow>
               (case translated_doc translation of
                  Inl e \<Rightarrow>
                    (Inl e,
                     st_show (TextArea (lit ''translation'') translation)
                       (st_show (Markdown (JStr (lit ''### Translation Result'')))
                          (st_show (TextArea (lit ''original text'') (JStr (original_text doc)))
                             (st_show (Markdown (JStr (lit ''### Original Text'')))
                                (snd (d_translate_text translator (original_text doc)
                                        (document_languages source_language)
                                        (document_languages target_language) w))))))
                | Inr d \<Rightarrow>
                    (Inr (),
                     st_show (DownloadButton ([128229] @ lit '' Download Translated Document'')
                                (DocxBuffer d)
                                (lit ''translation_''
                                   @ clock (snd (d_translate_text translator (original_text doc)
                                        (document_languages source_language)
                                        (document_languages target_language) w))
                                   @ lit ''.docx'')
                                docx_mime)
                       (st_show (TextArea (lit ''translation'') translation)
                          (st_show (Markdown (JStr (lit ''### Translation Result'')))
                             (st_show (TextArea (lit ''original text'')
                                         (JStr (original_text doc)))
                                (st_show (Markdown (JStr (lit ''### Original Text'')))
                                   (snd (d_translate_text translator (original_text doc)
                                           (document_languages source_language)
                                           (document_languages target_language) w))))))))))"
  by (simp add: document_try_def Let_def st_show_def split: prod.splits sum.splits)

lemma downloads_st_show:
  "downloads (st_show ev w) = downloads w @ (if is_download ev then [ev] else [])"
  by (simp add: downloads_def st_show_def)

lemma except_show_error_failed:
  "fst rw = Inl e \<Longrightarrow>
   except_show_error rw = st_show (StError (lit ''An error occurred: '') (Some e)) (snd rw)"
  by (cases rw) (simp add: except_show_error_def)

lemma except_show_error_done:
  "fst rw = Inr x \<Longrightarrow> except_show_error rw = snd rw"
  by (cases rw) (simp add: except_show_error_def)

lemma article_failed_downloads:
  assumes "fst (article_try translator u target_language w) = Inl e"
  shows "downloads (snd (article_try translator u target_language w)) = downloads w"
  using assms
  by (auto simp: article_try_stages downloads_def st_show_def ui_extract_text
        ui_a_translate_text split: sum.splits)

lemma document_failed_downloads:
  assumes "fst (document_try translator file source_language target_language w) = Inl e"
  shows "downloads (snd (document_try translator file source_language target_language w))
           = downloads w"
  using assms
  by (auto simp: document_try_stages downloads_def st_show_def ui_d_translate_text
        split: sum.splits)

lemma article_failed:
  assumes "fst (article_try translator u target_language w) = Inl e"
  shows "downloads (article_translator_page translator u target_language True w) = downloads w
         \<and> last (ui (article_translator_page translator u target_language True w))
             = StError (lit ''An error occurred: '') (Some e)"
  using assms article_failed_downloads [OF assms]
  by (simp add: article_translator_page_def except_show_error_failed downloads_st_show)
     (simp add: st_show_def)

lemma document_failed:
  assumes "fst (document_try translator file source_language target_language w) = Inl e"
  shows "downloads (document_translator_page translator (Some file) source_language
                      target_language True w) = downloads w
         \<and> last (ui (document_translator_page translator (Some file) source_language
                        target_language True w))
             = StError (lit ''An error occurred: '') (Some e)"
  using assms document_failed_downloads [OF assms]
  by (simp add: document_translator_page_def except_show_error_failed downloads_st_show)
     (simp add: st_show_def)

lemma article_extraction_failed:
  assumes "fst (extract_text translator u w) = Inl e"
  shows "article_translator_page translator u target_language True w
           = st_show (StError (lit ''An error occurred: '') (Some e))
               (snd (extract_text translator u w))"
proof -
  have "article_try translator u target_language w = (Inl e, snd (extract_text translator u w))"
    using assms by (simp add: article_try_stages)
  then show ?thesis by (simp add: article_translator_page_def except_show_error_def)
qed

lemma article_translation_failed:
  assumes "fst (extract_text translator u w) = Inr t"
    and "fst (a_translate_text translator t (article_languages target_language)
                (snd (extract_text translator u w))) = Inl e"
  shows "article_translator_page translator u target_language True w
           = st_show (StError (lit ''An error occurred: '') (Some e))
               (snd (a_translate_text translator t (article_languages target_language)
                       (snd (extract_text translator u w))))"
proof -
  have "article_try translator u target_language w
          = (Inl e, snd (a_translate_text translator t (article_languages target_language)
                           (snd (extract_text translator u w))))"
    using assms by (simp add: article_try_stages)
  then show ?thesis by (simp add: article_translator_page_def except_show_error_def)
qed

lemma document_extraction_failed:
  assumes "Document_open file = Inl e"
  shows "document_translator_page translator (Some file) source_language target_language True w
           = st_show (StError (lit ''An error occurred: '') (Some e)) w"
proof -
  have "document_try translator file source_language target_language w = (Inl e, w)"
    using assms by (simp add: document_try_stages)
  then show ?thesis by (simp add: document_translator_page_def except_show_error_def)
qed

lemma document_translation_failed:
  assumes "Document_open file = Inr doc"
    and "fst (d_translate_text translator (original_text doc)
                (document_languages source_language) (document_languages target_language) w)
           = Inl e"
  shows "document_translator_page translator (Some file) source_language target_language True w
           = st_show (StError (lit ''An error occurred: '') (Some e))
               (snd (d_translate_text translator (original_text doc)
                       (document_languages source_language)
                       (document_languages target_language) w))"
proof -
  have "document_try translator file source_language target_language w
          = (Inl e, snd (d_translate_text translator (original_text doc)
                           (document_languages source_language)
                           (document_languages target_language) w))"
    using assms by (simp add: document_try_stages)
  then show ?thesis by (simp add: document_translator_page_def except_show_error_def)
qed

lemma article_done:
  assumes "fst (article_try translator u target_language w) = Inr x"
  shows "\<exists>t translation data label name mime.
           fst (extract_text translator u w) = Inr t
           \<and> fst (a_translate_text translator t (article_languages target_language)
                    (snd (extract_text translator u w))) = Inr translation
           \<and> markdown_bytes translation = Inr data
           \<and> downloads (article_translator_page translator u target_language True w)
               = downloads w @ [DownloadButton label (MarkdownBytes data) name mime]"
proof -
  from assms obtain t where t: "fst (extract_text translator u w) = Inr t"
    by (cases "fst (extract_text translator u w)") (simp_all add: article_try_stages)
  let ?w1 = "snd (extract_text translator u w)"
  from assms t obtain translation where
    tr: "fst (a_translate_text translator t (article_languages target_language) ?w1)
           = Inr translation"
    by (cases "fst (a_translate_text translator t (article_languages target_language) ?w1)")
       (simp_all add: article_try_stages)
  from assms t tr obtain data where d: "markdown_bytes translation = Inr data"
    by (cases "markdown_bytes translation") (simp_all add: article_try_stages)
  have "downloads (snd (article_try translator u target_language w))
          = downloads w @ [DownloadButton ([128229] @ lit '' Download Translation'')
                (MarkdownBytes data)
                (lit ''translation_''
                   @ clock (snd (a_translate_text translator t
                                   (article_languages target_language) ?w1))
                   @ lit ''.md'')
                (lit ''text/markdown'')]"
    using t tr d
    by (simp add: article_try_stages downloads_def st_show_def ui_extract_text
          ui_a_translate_text)
  then have "downloads (article_translator_page translator u target_language True w)
          = downloads w @ [DownloadButton ([128229] @ lit '' Download Translation'')
                (MarkdownBytes data)
                (lit ''translation_''
                   @ clock (snd (a_translate_text translator t
                                   (article_languages target_language) ?w1))
                   @ lit ''.md'')
                (lit ''text/markdown'')]"
    using assms by (simp add: article_translator_page_def except_show_error_done)
  with t tr d show ?thesis by blast
qed

lemma document_done:
  assumes "fst (document_try translator file source_language target_language w) = Inr x"
  shows "\<exists>doc s label name mime.
           Document_open file = Inr doc
           \<and> fst (d_translate_text translator (original_text doc)
                    (document_languages source_language)
                    (document_languages target_language) w) = Inr (JStr s)
           \<and> downloads (document_translator_page translator (Some file) source_language
                          target_language True w)
               = downloads w @ [DownloadButton label (DocxBuffer (build_document s)) name mime]"
proof -
  from assms obtain doc where doc: "Document_open file = Inr doc"
    by (cases "Document_open file") (simp_all add: document_try_stages)
  let ?r = "d_translate_text translator (original_text doc)
              (document_languages source_language) (document_languages target_language) w"
  from assms doc obtain translation where tr: "fst ?r = Inr translation"
    by (cases "fst ?r") (simp_all add: document_try_stages)
  from assms doc tr obtain d where d: "translated_doc translation = Inr d"
    by (cases "translated_doc translation") (simp_all add: document_try_stages)
  then obtain s where s: "translation = JStr s" and ds: "d = build_document s"
    by (cases translation) (simp_all add: translated_doc_def)
  have "downloads (snd (document_try translator file source_language target_language w))
          = downloads w @ [DownloadButton ([128229] @ lit '' Download Translated Document'')
                (DocxBuffer (build_document s))
                (lit ''translation_'' @ clock (snd ?r) @ lit ''.docx'')
                docx_mime]"
    using doc tr d s ds
    by (simp add: document_try_stages downloads_def st_show_def ui_d_translate_text)
  then have "downloads (document_translator_page translator (Some file) source_language
                          target_language True w)
          = downloads w @ [DownloadButton ([128229] @ lit '' Download Translated Document'')
                (DocxBuffer (build_document s))
                (lit ''translation_'' @ clock (snd ?r) @ lit ''.docx'')
                docx_mime]"
    using assms by (simp add: document_translator_page_def except_show_error_done)
  with doc tr s show ?thesis by blast
qed

lemma http_calls_extract_text:
  "http_calls (snd (extract_text self u w)) =
     http_calls w @ [\<lparr>req_method = GET, req_url = Some u, req_params = [],
                      req_headers = [], req_json = None\<rparr>]"
  by (simp add: extract_text_def requests_get_def http_call_def log_and_reraise_def
        split: sum.splits)

text \<open>
  Claim C6.  On both pages the stages run inside one \<open>try\<close>; \<open>articles\<close> and
  \<open>documents\<close> are the two translators.  When a stage raises, the page shows the error
  last and has delivered no artifact: its download buttons are those it had before.
  The stages after the failed one do not run: after a failed extraction the article page
  has made its GET and no other call, and the document page has made no call at all;
  after a failed translation the page is the world the translator left, with the error
  shown.  When no stage raises, the page delivers exactly one artifact, built from the
  whole translation: the bytes of the translated string, or the document built from it.
\<close>

theorem failed_stage_delivers_nothing:
  "(fst (article_try articles u target_language w) = Inl e \<longrightarrow>
      downloads (article_translator_page articles u target_language True w) = downloads w
      \<and> last (ui (article_translator_page articles u target_language True w))
          = StError (lit ''An error occurred: '') (Some e))
   \<and> (fst (extract_text articles u w) = Inl e \<longrightarrow>
      article_translator_page articles u target_language True w
        = st_show (StError (lit ''An error occurred: '') (Some e))
            (snd (extract_text articles u w))
      \<and> http_calls (article_translator_page articles u target_language True w)
          = http_calls w @ [\<lparr>req_method = GET, req_url = Some u, req_params = [],
                             req_headers = [], req_json = None\<rparr>])
   \<and> (fst (extract_text articles u w) = Inr t
        \<and> fst (a_translate_text articles t (article_languages target_language)
                 (snd (extract_text articles u w))) = Inl e \<longrightarrow>
      article_translator_page articles u target_language True w
        = st_show (StError (lit ''An error occurred: '') (Some e))
            (snd (a_translate_text articles t (article_languages target_language)
                    (snd (extract_text articles u w)))))
   \<and> (fst (article_try articles u target_language w) = Inr () \<longrightarrow>
      (\<exists>t translation data label name mime.
          fst (extract_text articles u w) = Inr t
          \<and> fst (a_translate_text articles t (article_languages target_language)
                   (snd (extract_text articles u w))) = Inr translation
          \<and> markdown_bytes translation = Inr data
          \<and> downloads (article_translator_page articles u target_language True w)
              = downloads w @ [DownloadButton label (MarkdownBytes data) name mime]))
   \<and> (fst (document_try documents upload source_language target_language w) = Inl e \<longrightarrow>
      downloads (document_translator_page documents (Some upload) source_language
                   target_language True w) = downloads w
      \<and> last (ui (document_translator_page documents (Some upload) source_language
                     target_language True w))
          = StError (lit ''An error occurred: '') (Some e))
   \<and> (Document_open upload = Inl e \<longrightarrow>
      document_translator_page documents (Some upload) source_language target_language True w
        = st_show (StError (lit ''An error occurred: '') (Some e)) w)
   \<and> (Document_open upload = Inr doc
        \<and> fst (d_translate_text documents (original_text doc)
                 (document_languages source_language)
                 (document_languages target_language) w) = Inl e \<longrightarrow>
      document_translator_page documents (Some upload) source_language target_language True w
        = st_show (StError (lit ''An error occurred: '') (Some e))
            (snd (d_translate_text documents (original_text doc)
                    (document_languages source_language)
                    (document_languages target_language) w)))
   \<and> (fst (document_try documents upload source_language target_language w) = Inr () \<longrightarrow>
      (\<exists>doc s label name mime.
          Document_open upload = Inr doc
          \<and> fst (d_translate_text documents (original_text doc)
                   (document_languages source_language)
                   (document_languages target_language) w) = Inr (JStr s)
          \<and> downloads (document_translator_page documents (Some upload) source_language
                         target_language True w)
              = downloads w @ [DownloadButton label (DocxBuffer (build_document s)) name mime]))"
proof (intro conjI impI)
  assume "fst (article_try articles u target_language w) = Inl e"
  then show "downloads (article_translator_page articles u target_language True w) = downloads w"
    and "last (ui (article_translator_page articles u target_language True w))
          = StError (lit ''An error occurred: '') (Some e)"
    using article_failed by blast+
next
  assume a: "fst (extract_text articles u w) = Inl e"
  then show p: "article_translator_page articles u target_language True w
        = st_show (StError (lit ''An error occurred: '') (Some e))
            (snd (extract_text articles u w))"
    by (rule article_extraction_failed)
  show "http_calls (article_translator_page articles u target_language True w)
          = http_calls w @ [\<lparr>req_method = GET, req_url = Some u, req_params = [],
                             req_headers = [], req_json = None\<rparr>]"
    unfolding p by (simp add: st_show_def http_calls_extract_text)
next
  assume "fst (extract_text articles u w) = Inr t
        \<and> fst (a_translate_text articles t (article_languages target_language)
                 (snd (extract_text articles u w))) = Inl e"
  then show "article_translator_page articles u target_language True w
        = st_show (StError (lit ''An error occurred: '') (Some e))
            (snd (a_translate_text articles t (article_languages target_language)
                    (snd (extract_text articles u w))))"
    using article_translation_failed by blast
next
  assume "fst (article_try articles u target_language w) = Inr ()"
  then show "\<exists>t translation data label name mime.
          fst (extract_text articles u w) = Inr t
          \<and> fst (a_translate_text articles t (article_languages target_language)
                   (snd (extract_text articles u w))) = Inr translation
          \<and> markdown_bytes translation = Inr data
          \<and> downloads (article_translator_page articles u target_language True w)
              = downloads w @ [DownloadButton label (MarkdownBytes data) name mime]"
    by (rule article_done)
next
  assume "fst (document_try documents upload source_language target_language w) = Inl e"
  then show "downloads (document_translator_page documents (Some upload) source_language
                   target_language True w) = downloads w"
    and "last (ui (document_translator_page documents (Some upload) source_language
                     target_language True w))
          = StError (lit ''An error occurred: '') (Some e)"
    using document_failed by blast+
next
  assume "Document_open upload = Inl e"
  then show "document_translator_page documents (Some upload) source_language target_language
               True w
        = st_show (StError (lit ''An error occurred: '') (Some e)) w"
    by (rule document_extraction_failed)
next
  assume "Document_open upload = Inr doc
        \<and> fst (d_translate_text documents (original_text doc)
                 (document_languages source_language)
                 (document_languages target_language) w) = Inl e"
  then show "document_translator_page documents (Some upload) source_language target_language
               True w
        = st_show (StError (lit ''An error occurred: '') (Some e))
            (snd (d_translate_text documents (original_text doc)
                    (document_languages source_language)
                    (document_languages target_language) w))"
    using document_translation_failed by blast
next
  assume "fst (document_try documents upload source_language target_language w) = Inr ()"
  then show "\<exists>doc s label name mime.
          Document_open upload = Inr doc
          \<and> fst (d_translate_text documents (original_text doc)
                   (document_languages source_language)
                   (document_languages target_language) w) = Inr (JStr s)
          \<and> downloads (document_translator_page documents (Some upload) source_language
                         target_language True w)
              = downloads w @ [DownloadButton label (DocxBuffer (build_document s)) name mime]"
    by (rule document_done)
qed

theorem failed_stage_delivers_nothing_witness:
  "ui (article_translator_page \<lparr>a_api_key = None, a_endpoint = None\<rparr> (lit ''http://a'')
         Italian True (fresh_world (\<lambda>rq. Inl ConnectionError)))
     = [StError (lit ''An error occurred: '') (Some ConnectionError)]
   \<and> length (http_calls (article_translator_page \<lparr>a_api_key = None, a_endpoint = None\<rparr>
         (lit ''http://a'') Italian True (fresh_world (\<lambda>rq. Inl ConnectionError)))) = 1
   \<and> downloads (article_translator_page \<lparr>a_api_key = None, a_endpoint = None\<rparr>
         (lit ''http://a'') Italian True
         (fresh_world (\<lambda>rq. if req_method rq = GET
                             then Inr \<lparr>status_code = 200, body_json = None,
                                       body_html = [Text (lit ''Hello'')]\<rparr>
                             else Inr \<lparr>status_code = 429, body_json = None,
                                       body_html = []\<rparr>))) = []
   \<and> last (ui (article_translator_page \<lparr>a_api_key = None, a_endpoint = None\<rparr>
         (lit ''http://a'') Italian True
         (fresh_world (\<lambda>rq. if req_method rq = GET
                             then Inr \<lparr>status_code = 200, body_json = None,
                                       body_html = [Text (lit ''Hello'')]\<rparr>
                             else Inr \<lparr>status_code = 429, body_json = None,
                                       body_html = []\<rparr>))))
       = StError (lit ''An error occurred: '') (Some (HTTPError 429))
   \<and> document_translator_page \<lparr>d_api_key = None, d_endpoint = None, d_location = None\<rparr>
         (Some BadFile) English French True (fresh_world (\<lambda>rq. Inl Timeout))
       = st_show (StError (lit ''An error occurred: '') (Some PackageNotFoundError))
           (fresh_world (\<lambda>rq. Inl Timeout))"
  using failed_stage_delivers_nothing
      [where articles = "\<lparr>a_api_key = None, a_endpoint = None\<rparr>" and u = "lit ''http://a''"
         and target_language = Italian and w = "fresh_world (\<lambda>rq. Inl ConnectionError)"
         and e = ConnectionError and upload = BadFile]
    failed_stage_delivers_nothing
      [where articles = "\<lparr>a_api_key = None, a_endpoint = None\<rparr>" and u = "lit ''http://a''"
         and target_language = Italian
         and w = "fresh_world (\<lambda>rq. if req_method rq = GET
                             then Inr \<lparr>status_code = 200, body_json = None,
                                       body_html = [Text (lit ''Hello'')]\<rparr>
                             else Inr \<lparr>status_code = 429, body_json = None,
                                       body_html = []\<rparr>)"
         and e = "HTTPError 429" and upload = BadFile]
    failed_stage_delivers_nothing
      [where documents = "\<lparr>d_api_key = None, d_endpoint = None, d_location = None\<rparr>"
         and upload = BadFile and source_language = English and target_language = French
         and w = "fresh_world (\<lambda>rq. Inl Timeout)" and e = PackageNotFoundError]
  by (simp add: article_try_def extract_text_def a_translate_text_def requests_get_def
        requests_post_def http_call_def raise_for_status_def log_and_reraise_def
        fresh_world_def st_show_def downloads_def)

end
